theory Spec2Isabelle
  imports Complex_Main "HOL-Library.FSet"
begin

section \<open>Rendering contexts of the frontend (core/frontend/src/ViewContext.ts)\<close>

text \<open>
  A shallow embedding of two contexts of ViewContext.ts:
  \<^item> DecorateContext: the decoration bundle of one frame, the cache-recording slot, and the
    grid decoration;
  \<^item> SceneContext: the scene of one frame, the missing tiles and the planar classifiers.

  JavaScript objects that the code compares by identity (decorators, canvas decorations,
  HTML elements, tiles, classifiers) are natural numbers. JavaScript numbers are modelled
  as reals (and as integers where the code produces them with floor and ceil, or counts):
  the model is exact where the doubles involved are finite and computed without rounding.
  A division by zero leaves the finite doubles (Infinity, NaN): drawStandardGrid is
  modelled for a pixel size that is not zero, where it has none.
  An exception leaves the mutations made before it in place, so an operation that can
  mutate and then throw returns the state together with the error.
\<close>

subsection \<open>Errors\<close>

datatype error =
    AssertionFailed  \<comment> \<open>assert of bentleyjs-core (assertions enabled), called with a false condition\<close>
  | CallbackError    \<comment> \<open>an exception thrown by a callback (decorate, func)\<close>

subsection \<open>Graphics and graphic builders\<close>

type_synonym Point3d = "real \<times> real \<times> real"

datatype GraphicType = ViewBackground | Scene | WorldDecoration | WorldOverlay | ViewOverlay

datatype LinePixels = Solid | Code2

datatype BaseColor = Red | ContrastToBackground

text \<open>A colour is its base colour and the argument of the last withTransparency, if any.\<close>

type_synonym ColorDef = "BaseColor \<times> real option"

definition withTransparency :: "ColorDef \<Rightarrow> real \<Rightarrow> ColorDef" where
  "withTransparency c t = (fst c, Some t)"

text \<open>The calls a GraphicBuilder receives, in order.\<close>

datatype BuilderOp =
    SetBlankingFill ColorDef
  | AddShape "Point3d list"
  | SetSymbology ColorDef ColorDef nat "LinePixels option"
  | AddLineString "Point3d list"

record GraphicBuilder =
  builderType :: GraphicType
  placement :: "Point3d option"
  ops :: "BuilderOp list"

text \<open>
  A RenderGraphic is an opaque graphic of the render system, the owner that
  createGraphicOwner wraps around a graphic, or what finish returns for a builder.
\<close>

datatype RenderGraphic =
    Graphic nat
  | GraphicOwner RenderGraphic
  | BuiltGraphic "Point3d option" "BuilderOp list"

definition createGraphicOwner :: "RenderGraphic \<Rightarrow> RenderGraphic" where
  "createGraphicOwner g = GraphicOwner g"

definition finish :: "GraphicBuilder \<Rightarrow> RenderGraphic" where
  "finish b = BuiltGraphic (placement b) (ops b)"

subsection \<open>Decorations and the decoration cache\<close>

type_synonym CanvasDecoration = nat
type_synonym HTMLElement = nat
type_synonym DecoratorId = nat

text \<open>The Decorations bundle: every slot is undefined (None) until first written.\<close>

record Decorations =
  normal :: "RenderGraphic list option"
  world :: "RenderGraphic list option"
  worldOverlay :: "RenderGraphic list option"
  viewOverlay :: "RenderGraphic list option"
  canvasDecorations :: "CanvasDecoration list option"
  skyBox :: "RenderGraphic option"
  viewBackground :: "RenderGraphic option"

definition emptyDecorations :: Decorations where
  "emptyDecorations = \<lparr> normal = None, world = None, worldOverlay = None, viewOverlay = None,
     canvasDecorations = None, skyBox = None, viewBackground = None \<rparr>"

datatype CachedDecoration =
    CachedGraphic RenderGraphic GraphicType   \<comment> \<open>type "graphic": graphicOwner, graphicType\<close>
  | CachedCanvas CanvasDecoration bool        \<comment> \<open>type "canvas": canvasDecoration, atFront\<close>
  | CachedHtml HTMLElement                    \<comment> \<open>type "html": htmlElement\<close>

text \<open>
  The state a DecorateContext works on: its own slot and bundle, the decoration cache and
  the decoration div of its viewport, and a trace of the decorators whose decorate method
  was invoked (the trace is written by addFromDecorator and read by no operation).
\<close>

record DecorateContext =
  curCacheableDecorator :: "DecoratorId option"
  decorations :: Decorations
  decorationCache :: "DecoratorId \<rightharpoonup> CachedDecoration list"
  decorationDiv :: "HTMLElement list"
  decorateInvocations :: "DecoratorId list"

text \<open>The constructor, for a viewport with the given cache and div and a new bundle.\<close>

definition newDecorateContext ::
    "(DecoratorId \<rightharpoonup> CachedDecoration list) \<Rightarrow> HTMLElement list \<Rightarrow> DecorateContext" where
  "newDecorateContext cache elems = \<lparr> curCacheableDecorator = None,
     decorations = emptyDecorations, decorationCache = cache, decorationDiv = elems,
     decorateInvocations = [] \<rparr>"

text \<open>
  Modelled from the spec: Viewport.getCachedDecorations and Viewport.addCachedDecoration
  (Viewport.ts is not among the sources). The spec's DecorationCache is a mapping from
  decorator identity to an ordered sequence of CachedDecoration, in which a decorator
  appears if and only if it has produced at least one decoration since its last
  invalidation: the entry is created by the first decoration added and extended at the
  back by the later ones.
\<close>

definition getCachedDecorations :: "DecoratorId \<Rightarrow> DecorateContext \<Rightarrow> CachedDecoration list option" where
  "getCachedDecorations d c = decorationCache c d"

definition addCachedDecoration :: "DecoratorId \<Rightarrow> CachedDecoration \<Rightarrow> DecorateContext \<Rightarrow> DecorateContext" where
  "addCachedDecoration d decoration c =
     c\<lparr> decorationCache := (decorationCache c)
          (d \<mapsto> (case decorationCache c d of None \<Rightarrow> [decoration] | Some ds \<Rightarrow> ds @ [decoration])) \<rparr>"

text \<open>
  Modelled from the DOM: appendChild puts the element last among the children of the
  decoration div, moving it when it already is a child.
\<close>

definition appendChild :: "HTMLElement \<Rightarrow> HTMLElement list \<Rightarrow> HTMLElement list" where
  "appendChild e children = filter (\<lambda>x. x \<noteq> e) children @ [e]"

subsection \<open>DecorateContext: adding decorations\<close>

text \<open>
  The operations below throw only through the assertion of appendToCache, before any
  mutation: they return the error, or the new context.
\<close>

definition appendToCache :: "CachedDecoration \<Rightarrow> DecorateContext \<Rightarrow> error + DecorateContext" where
  "appendToCache decoration c =
     (case curCacheableDecorator c of
        None \<Rightarrow> Inl AssertionFailed
      | Some d \<Rightarrow> Inr (addCachedDecoration d decoration c))"

definition push :: "'a \<Rightarrow> 'a list option \<Rightarrow> 'a list option" where
  "push x slot = (case slot of None \<Rightarrow> Some [x] | Some xs \<Rightarrow> Some (xs @ [x]))"

definition setSkyBox :: "RenderGraphic \<Rightarrow> DecorateContext \<Rightarrow> DecorateContext" where
  "setSkyBox graphic c = c\<lparr> decorations := (decorations c)\<lparr> skyBox := Some graphic \<rparr> \<rparr>"

definition setViewBackground :: "RenderGraphic \<Rightarrow> DecorateContext \<Rightarrow> DecorateContext" where
  "setViewBackground graphic c = c\<lparr> decorations := (decorations c)\<lparr> viewBackground := Some graphic \<rparr> \<rparr>"

text \<open>The switch of addDecoration, on the graphic that is stored.\<close>

fun addToList :: "GraphicType \<Rightarrow> RenderGraphic \<Rightarrow> DecorateContext \<Rightarrow> DecorateContext" where
  "addToList Scene g c = c\<lparr> decorations := (decorations c)\<lparr> normal := push g (normal (decorations c)) \<rparr> \<rparr>"
| "addToList WorldDecoration g c = c\<lparr> decorations := (decorations c)\<lparr> world := push g (world (decorations c)) \<rparr> \<rparr>"
| "addToList WorldOverlay g c = c\<lparr> decorations := (decorations c)\<lparr> worldOverlay := push g (worldOverlay (decorations c)) \<rparr> \<rparr>"
| "addToList ViewOverlay g c = c\<lparr> decorations := (decorations c)\<lparr> viewOverlay := push g (viewOverlay (decorations c)) \<rparr> \<rparr>"
| "addToList ViewBackground g c = setViewBackground g c"

definition addDecoration :: "GraphicType \<Rightarrow> RenderGraphic \<Rightarrow> DecorateContext \<Rightarrow> error + DecorateContext" where
  "addDecoration type decoration c =
     (case curCacheableDecorator c of
        Some d \<Rightarrow>
          (let graphicOwner = createGraphicOwner decoration in
           case appendToCache (CachedGraphic graphicOwner type) c of
             Inl e \<Rightarrow> Inl e
           | Inr c' \<Rightarrow> Inr (addToList type graphicOwner c'))
      | None \<Rightarrow> Inr (addToList type decoration c))"

definition addDecorationFromBuilder :: "GraphicBuilder \<Rightarrow> DecorateContext \<Rightarrow> error + DecorateContext" where
  "addDecorationFromBuilder builder c = addDecoration (builderType builder) (finish builder) c"

text \<open>
  addCanvasDecoration: push (at the end of the array) when the list is empty or atFront
  is true, unshift (at the start of the array) otherwise.
\<close>

definition insertCanvas :: "CanvasDecoration \<Rightarrow> bool \<Rightarrow> DecorateContext \<Rightarrow> DecorateContext" where
  "insertCanvas decoration atFront c =
     (let list = (case canvasDecorations (decorations c) of None \<Rightarrow> [] | Some xs \<Rightarrow> xs) in
      c\<lparr> decorations := (decorations c)\<lparr> canvasDecorations :=
           Some (if length list = 0 \<or> atFront then list @ [decoration] else decoration # list) \<rparr> \<rparr>)"

definition addCanvasDecoration :: "CanvasDecoration \<Rightarrow> bool \<Rightarrow> DecorateContext \<Rightarrow> error + DecorateContext" where
  "addCanvasDecoration decoration atFront c =
     (case curCacheableDecorator c of
        Some d \<Rightarrow>
          (case appendToCache (CachedCanvas decoration atFront) c of
             Inl e \<Rightarrow> Inl e
           | Inr c' \<Rightarrow> Inr (insertCanvas decoration atFront c'))
      | None \<Rightarrow> Inr (insertCanvas decoration atFront c))"

definition addHtmlDecoration :: "HTMLElement \<Rightarrow> DecorateContext \<Rightarrow> error + DecorateContext" where
  "addHtmlDecoration decoration c =
     (let attach = (\<lambda>c'. c'\<lparr> decorationDiv := appendChild decoration (decorationDiv c') \<rparr>) in
      case curCacheableDecorator c of
        Some d \<Rightarrow>
          (case appendToCache (CachedHtml decoration) c of
             Inl e \<Rightarrow> Inl e
           | Inr c' \<Rightarrow> Inr (attach c'))
      | None \<Rightarrow> Inr (attach c))"

subsection \<open>The grid decoration: clipping the frustum against the grid plane\<close>

definition minSeparation :: real where "minSeparation = 20"
definition maxRefLines :: int where "maxRefLines = 100"
definition gridTransparency :: real where "gridTransparency = 220"
definition refTransparency :: real where "refTransparency = 150"
definition planeTransparency :: real where "planeTransparency = 225"

text \<open>What the clip of the frustum's range against the grid plane can return.\<close>

datatype CurvePrimitive = LineString3d "Point3d list" | OtherCurve

datatype GeometryQuery = Loop "CurvePrimitive list" | OtherGeometry

text \<open>
  What the viewport and the geometry library compute for one call of drawStandardGrid
  (their code is not part of ViewContext.ts): each field is the value of the named
  expression of the source.
\<close>

record GridView =
  isCameraOn :: bool
  normResult :: bool
    \<comment> \<open>eyeDir.normalize(eyeDir) is defined\<close>
  eyeDot :: real
    \<comment> \<open>eyeDir.dotProduct(zVec)\<close>
  planeDefined :: bool
    \<comment> \<open>Plane3dByOriginAndUnitNormal.create(gridOrigin, zVec) is defined\<close>
  clipLoops :: "GeometryQuery list option"
    \<comment> \<open>ClipUtilities.loopsOfConvexClipPlaneIntersectionWithRange(...)\<close>
  polygonClip :: "Point3d list \<Rightarrow> Point3d list"
    \<comment> \<open>finalPoints after convexSet.polygonClip(points, finalPoints, work)\<close>
  worldToViewZ :: "Point3d \<Rightarrow> real"
    \<comment> \<open>z of vp.worldToView(point)\<close>
  pixelSizeAtPoint :: "Point3d \<Rightarrow> real"
    \<comment> \<open>vp.getPixelSizeAtPoint(point), in meters per pixel\<close>
  viewZ :: Point3d
    \<comment> \<open>vp.rotation.getRow(2)\<close>
  localRange :: "Point3d list \<Rightarrow> (real \<times> real) \<times> (real \<times> real)"
    \<comment> \<open>low (x, y) and high (x, y) of Range3d.createInverseTransformedArray(transform, points)\<close>
  gridToWorld :: "real \<times> real \<Rightarrow> Point3d"
    \<comment> \<open>transform applied to Point3d.create(x, y)\<close>
  dotX :: real
    \<comment> \<open>xDir.dotProduct(viewZ)\<close>
  dotY :: real
    \<comment> \<open>yDir.dotProduct(viewZ)\<close>
  refSeparationX :: "int \<Rightarrow> real"
    \<comment> \<open>getCurrentGridRefSeparation(...) in iteration xRef of the first loop\<close>
  refSeparationY :: "int \<Rightarrow> real"
    \<comment> \<open>getCurrentGridRefSeparation(...) in iteration yRef of the second loop\<close>

text \<open>The loop of getClippedGridPlanePoints that finds the index of the largest view z.\<close>

fun closeIndexLoop :: "(Point3d \<Rightarrow> real) \<Rightarrow> Point3d list \<Rightarrow> nat \<Rightarrow> real \<Rightarrow> nat \<Rightarrow> nat" where
  "closeIndexLoop toZ [] i lastZ closeIndex = closeIndex"
| "closeIndexLoop toZ (p # ps) i lastZ closeIndex =
     (if i = 0 \<or> toZ p > lastZ
      then closeIndexLoop toZ ps (i + 1) (toZ p) i
      else closeIndexLoop toZ ps (i + 1) lastZ closeIndex)"

text \<open>
  getClippedGridPlanePoints returns the shape points, and the point it leaves in loopPt;
  None is the source's undefined.
\<close>

definition getClippedGridPlanePoints :: "GridView \<Rightarrow> (Point3d list \<times> Point3d) option" where
  "getClippedGridPlanePoints vp =
     (case clipLoops vp of
        None \<Rightarrow> None
      | Some geom \<Rightarrow>
          if length geom \<noteq> 1 then None
          else (case geom ! 0 of
             OtherGeometry \<Rightarrow> None
           | Loop children \<Rightarrow>
               if length children \<noteq> 1 then None
               else (case children ! 0 of
                  OtherCurve \<Rightarrow> None
                | LineString3d points \<Rightarrow>
                    (let finalPoints = polygonClip vp points in
                     if length finalPoints < 4 then None
                     else
                       (let shapePoints = finalPoints;
                            closeIndex = (if isCameraOn vp
                              then closeIndexLoop (worldToViewZ vp) shapePoints 0 0 0 else 0)
                        in Some (shapePoints, shapePoints ! closeIndex))))))"

subsection \<open>The grid decoration: which lines are drawn\<close>

definition refScale :: "int \<Rightarrow> real" where
  "refScale gridsPerRef = (if gridsPerRef = 0 then 1.0 else real_of_int gridsPerRef)"

definition refSpacing :: "real \<times> real \<Rightarrow> int \<Rightarrow> real \<times> real" where
  "refSpacing spacing gridsPerRef =
     (fst spacing * refScale gridsPerRef, snd spacing * refScale gridsPerRef)"

definition drawRefLines :: "real \<times> real \<Rightarrow> real \<Rightarrow> bool" where
  "drawRefLines refSp meterPerPixel =
     (\<not> (fst refSp / meterPerPixel < minSeparation \<or> snd refSp / meterPerPixel < minSeparation))"

definition drawGridLines :: "bool \<Rightarrow> bool \<Rightarrow> int \<Rightarrow> real \<times> real \<Rightarrow> real \<Rightarrow> bool" where
  "drawGridLines drawRefX drawRefY gridsPerRef spacing meterPerPixel =
     (drawRefX \<and> drawRefY \<and>
      (gridsPerRef > 1 \<and>
       \<not> (fst spacing / meterPerPixel < minSeparation \<or> snd spacing / meterPerPixel < minSeparation)))"

text \<open>
  The values drawStandardGrid computes at the start of its block for drawRefLines, before
  the loops.
\<close>

record GridLayout =
  minX :: real
  maxX :: real
  minY :: real
  maxY :: real
  nRefRepetitionsX :: int
  nRefRepetitionsY :: int
  unambiguousX :: bool
  unambiguousY :: bool
  reverseX :: bool
  reverseY :: bool
  refStepX :: real
  refStepY :: real
  linePat :: LinePixels
  drawRefX :: bool
  drawRefY :: bool

definition gridLayout :: "real \<times> real \<Rightarrow> GridView \<Rightarrow> Point3d list \<Rightarrow> GridLayout" where
  "gridLayout refSp vp shapePoints =
     (let low = fst (localRange vp shapePoints);
          high = snd (localRange vp shapePoints);
          minXi = \<lfloor>fst low / fst refSp\<rfloor>;
          maxXi = \<lceil>fst high / fst refSp\<rceil>;
          minYi = \<lfloor>snd low / snd refSp\<rfloor>;
          maxYi = \<lceil>snd high / snd refSp\<rceil>;
          nX = maxYi - minYi;
          nY = maxXi - minXi;
          unambX = (\<bar>dotX vp\<bar> > 0.25);
          unambY = (\<bar>dotY vp\<bar> > 0.25);
          revX = (dotX vp > 0);
          revY = (dotY vp > 0)
      in \<lparr> minX = real_of_int minXi * fst refSp, maxX = real_of_int maxXi * fst refSp,
           minY = real_of_int minYi * snd refSp, maxY = real_of_int maxYi * snd refSp,
           nRefRepetitionsX = nX, nRefRepetitionsY = nY,
           unambiguousX = unambX, unambiguousY = unambY,
           reverseX = revX, reverseY = revY,
           refStepX = (if revY then - fst refSp else fst refSp),
           refStepY = (if revX then - snd refSp else snd refSp),
           linePat = (if eyeDot vp < 0 then Code2 else Solid),
           drawRefX = (nX < maxRefLines \<or> (isCameraOn vp \<and> unambX)),
           drawRefY = (nY < maxRefLines \<or> (isCameraOn vp \<and> unambY)) \<rparr>)"

definition fadeRefSteps :: nat where "fadeRefSteps = 8"

definition fadeRefTransparencyStep :: real where
  "fadeRefTransparencyStep = (255 - refTransparency) / (real fadeRefSteps + 2)"

definition color :: ColorDef where
  "color = (ContrastToBackground, None)"

text \<open>
  One of the two loops over the reference lines. The constants of the loop: the number of
  repetitions, whether the axis is unambiguous, the camera flag, the separations that
  getCurrentGridRefSeparation returns, and the line string of a coordinate.
\<close>

record RefLoop =
  nRefRepetitions :: int
  unambiguous :: bool
  cameraOn :: bool
  separation :: "int \<Rightarrow> real"
  lineAt :: "real \<Rightarrow> Point3d list"
  planeColor :: ColorDef
  pattern :: LinePixels

text \<open>The variables of the loop: doFade, the fade count, lastDist, nGridRepetitions.\<close>

type_synonym RefLoopState = "bool \<times> nat \<times> real \<times> int"

definition refLineStep :: "RefLoop \<Rightarrow> int \<Rightarrow> real \<Rightarrow> RefLoopState \<Rightarrow> RefLoopState \<times> BuilderOp list" where
  "refLineStep k xRef ref st =
     (case st of (doFade, fade, lastDist, nGridRepetitions) \<Rightarrow>
        if doFade then
          ((doFade, fade + 1, lastDist, nGridRepetitions),
           [SetSymbology
              (withTransparency color (refTransparency + fadeRefTransparencyStep * real (fade + 1)))
              (planeColor k) 1 (Some (pattern k)),
            AddLineString (lineAt k ref)])
        else if xRef > 0 \<and> nRefRepetitions k > 10 then
          (let thisDist = separation k xRef;
               measured = (\<not> xRef > maxRefLines \<and> unambiguous k \<and> cameraOn k);
               doFade' =
                 (if xRef > maxRefLines then True
                  else if unambiguous k \<and> cameraOn k then
                    (if thisDist < minSeparation
                     then (if cameraOn k then xRef > 1 \<and> thisDist < lastDist else True)
                     else doFade)
                  else doFade);
               lastDist' = (if measured then thisDist else lastDist);
               nGridRepetitions' = (if doFade' then xRef else nGridRepetitions)
           in ((doFade', fade, lastDist', nGridRepetitions'), [AddLineString (lineAt k ref)]))
        else (st, [AddLineString (lineAt k ref)]))"

function refLineLoop :: "RefLoop \<Rightarrow> real \<Rightarrow> int \<Rightarrow> real \<Rightarrow> RefLoopState \<Rightarrow> RefLoopState \<times> BuilderOp list" where
  "refLineLoop k refStep xRef ref st =
     (if xRef \<le> nRefRepetitions k \<and> fst (snd st) < fadeRefSteps then
        (let this = refLineStep k xRef ref st;
             rest = refLineLoop k refStep (xRef + 1) (ref + refStep) (fst this)
         in (fst rest, snd this @ snd rest))
      else (st, []))"
  by pat_completeness auto
termination
  by (relation "measure (\<lambda>(k, refStep, xRef, ref, st). nat (nRefRepetitions k + 1 - xRef))") auto

text \<open>
  The two loops over the reference lines, each under its flag: the builder calls, and
  nGridRepetitionsX and nGridRepetitionsY as the loops leave them.
\<close>

definition refLineOps :: "GridView \<Rightarrow> GridLayout \<Rightarrow> ColorDef \<Rightarrow> BuilderOp list \<times> int \<times> int" where
  "refLineOps vp l plane =
     (let refColor = withTransparency color refTransparency;
          start = SetSymbology refColor plane 1 (Some (linePat l));
          loopX = refLineLoop
            \<lparr> nRefRepetitions = nRefRepetitionsX l, unambiguous = unambiguousX l,
              cameraOn = isCameraOn vp, separation = refSeparationX vp,
              lineAt = (\<lambda>refY. [gridToWorld vp (minX l, refY), gridToWorld vp (maxX l, refY)]),
              planeColor = plane, pattern = linePat l \<rparr>
            (refStepY l) 0 (if reverseX l then maxY l else minY l)
            (False, 0, 0, nRefRepetitionsX l);
          afterX = (if drawRefX l then (fst loopX, start # snd loopX)
                    else ((False, 0, 0, nRefRepetitionsX l), []));
          lastDist = fst (snd (snd (fst afterX)));
          loopY = refLineLoop
            \<lparr> nRefRepetitions = nRefRepetitionsY l, unambiguous = unambiguousY l,
              cameraOn = isCameraOn vp, separation = refSeparationY vp,
              lineAt = (\<lambda>refX. [gridToWorld vp (refX, minY l), gridToWorld vp (refX, maxY l)]),
              planeColor = plane, pattern = linePat l \<rparr>
            (refStepX l) 0 (if reverseY l then maxX l else minX l)
            (False, 0, lastDist, nRefRepetitionsY l);
          afterY = (if drawRefY l then (fst loopY, start # snd loopY)
                    else ((False, 0, lastDist, nRefRepetitionsY l), []))
      in (snd afterX @ snd afterY,
          snd (snd (snd (fst afterX))), snd (snd (snd (fst afterY)))))"

text \<open>
  The loops over the sub-grid lines: between two reference lines, the lines
  1, ..., gridsPerRef - 1; the grid step is the reference step divided by gridsPerRef.
\<close>

record GridLoop =
  divisions :: int
  gridStep :: real
  fadeGridTransparencyStep :: real
  gridLineAt :: "real \<Rightarrow> Point3d list"
  gridPlaneColor :: ColorDef

function gridInnerLoop :: "GridLoop \<Rightarrow> bool \<Rightarrow> int \<Rightarrow> real \<Rightarrow> BuilderOp list" where
  "gridInnerLoop g doFade yGrid gridY =
     (if yGrid < divisions g then
        (if doFade
         then [SetSymbology
                 (withTransparency color
                    (gridTransparency + fadeGridTransparencyStep g * real_of_int yGrid))
                 (gridPlaneColor g) 1 None]
         else [])
        @ AddLineString (gridLineAt g gridY)
        # gridInnerLoop g doFade (yGrid + 1) (gridY + gridStep g)
      else [])"
  by pat_completeness auto
termination
  by (relation "measure (\<lambda>(g, doFade, yGrid, gridY). nat (divisions g - yGrid))") auto

function gridOuterLoop :: "GridLoop \<Rightarrow> int \<Rightarrow> int \<Rightarrow> real \<Rightarrow> int \<Rightarrow> real \<Rightarrow> BuilderOp list" where
  "gridOuterLoop g nGridRepetitions nRefReps refStep xRef ref =
     (if xRef < nGridRepetitions then
        gridInnerLoop g (nGridRepetitions < nRefReps \<and> xRef = nGridRepetitions - 1)
          1 (ref + gridStep g)
        @ gridOuterLoop g nGridRepetitions nRefReps refStep (xRef + 1) (ref + refStep)
      else [])"
  by pat_completeness auto
termination
  by (relation "measure (\<lambda>(g, nGridRepetitions, nRefReps, refStep, xRef, ref).
        nat (nGridRepetitions - xRef))") auto

text \<open>The block of drawStandardGrid for drawGridLines; it divides by gridsPerRef.\<close>

definition subGridLineOps ::
    "GridView \<Rightarrow> GridLayout \<Rightarrow> ColorDef \<Rightarrow> int \<Rightarrow> int \<Rightarrow> int \<Rightarrow> BuilderOp list" where
  "subGridLineOps vp l plane gridsPerRef nGridRepetitionsX nGridRepetitionsY =
     (let gridStepX = refStepX l / real_of_int gridsPerRef;
          gridStepY = refStepY l / real_of_int gridsPerRef;
          fadeStep = (255 - gridTransparency) / (real_of_int gridsPerRef + 2);
          start = SetSymbology (withTransparency color gridTransparency) plane 1 None
      in (if nGridRepetitionsX > 1 then
            start # gridOuterLoop
              \<lparr> divisions = gridsPerRef, gridStep = gridStepY, fadeGridTransparencyStep = fadeStep,
                gridLineAt = (\<lambda>gridY. [gridToWorld vp (minX l, gridY), gridToWorld vp (maxX l, gridY)]),
                gridPlaneColor = plane \<rparr>
              nGridRepetitionsX (nRefRepetitionsX l) (refStepY l)
              0 (if reverseX l then maxY l else minY l)
          else [])
         @ (if nGridRepetitionsY > 1 then
            start # gridOuterLoop
              \<lparr> divisions = gridsPerRef, gridStep = gridStepX, fadeGridTransparencyStep = fadeStep,
                gridLineAt = (\<lambda>gridX. [gridToWorld vp (gridX, minY l), gridToWorld vp (gridX, maxY l)]),
                gridPlaneColor = plane \<rparr>
              nGridRepetitionsY (nRefRepetitionsY l) (refStepX l)
              0 (if reverseY l then maxX l else minX l)
          else []))"

text \<open>The block of drawStandardGrid for drawRefLines.\<close>

definition gridLineOps ::
    "real \<times> real \<Rightarrow> int \<Rightarrow> GridView \<Rightarrow> Point3d list \<Rightarrow> real \<Rightarrow> ColorDef \<Rightarrow> BuilderOp list" where
  "gridLineOps spacing gridsPerRef vp shapePoints meterPerPixel plane =
     (let l = gridLayout (refSpacing spacing gridsPerRef) vp shapePoints;
          refs = refLineOps vp l plane
      in fst refs
         @ (if drawGridLines (drawRefX l) (drawRefY l) gridsPerRef spacing meterPerPixel
            then subGridLineOps vp l plane gridsPerRef (fst (snd refs)) (snd (snd refs))
            else []))"

text \<open>
  drawStandardGrid up to its last statement: the builder it has filled, or None where it
  returns before creating one.
\<close>

definition gridBuilder :: "real \<times> real \<Rightarrow> int \<Rightarrow> GridView \<Rightarrow> GraphicBuilder option" where
  "gridBuilder spacing gridsPerRef vp =
     (if \<not> normResult vp then None
      else if \<not> isCameraOn vp \<and> \<bar>eyeDot vp\<bar> < 0.005 then None
      else if \<not> planeDefined vp then None
      else (case getClippedGridPlanePoints vp of
         None \<Rightarrow> None
       | Some (shapePoints, loopPt) \<Rightarrow>
           (let meterPerPixel = pixelSizeAtPoint vp loopPt;
                gridOffset = (fst (viewZ vp) * meterPerPixel,
                              fst (snd (viewZ vp)) * meterPerPixel,
                              snd (snd (viewZ vp)) * meterPerPixel);
                plane = withTransparency (if eyeDot vp < 0 then (Red, None) else color)
                          planeTransparency
            in Some \<lparr> builderType = WorldDecoration, placement = Some gridOffset,
                 ops = [SetBlankingFill plane, AddShape shapePoints]
                   @ (if drawRefLines (refSpacing spacing gridsPerRef) meterPerPixel
                      then gridLineOps spacing gridsPerRef vp shapePoints meterPerPixel plane
                      else []) \<rparr>)))"

definition drawStandardGrid ::
    "real \<times> real \<Rightarrow> int \<Rightarrow> GridView \<Rightarrow> DecorateContext \<Rightarrow> error + DecorateContext" where
  "drawStandardGrid spacing gridsPerRef vp c =
     (case gridBuilder spacing gridsPerRef vp of
        None \<Rightarrow> Inr c
      | Some builder \<Rightarrow> addDecorationFromBuilder builder c)"

text \<open>The line strings among the calls of a builder, in order.\<close>

fun lineStrings :: "BuilderOp list \<Rightarrow> Point3d list list" where
  "lineStrings [] = []"
| "lineStrings (AddLineString points # rest) = points # lineStrings rest"
| "lineStrings (SetBlankingFill fill # rest) = lineStrings rest"
| "lineStrings (AddShape points # rest) = lineStrings rest"
| "lineStrings (SetSymbology lineColor fillColor width pat # rest) = lineStrings rest"

text \<open>The line strings that drawStandardGrid draws: none when it returns early.\<close>

definition gridLineStrings :: "real \<times> real \<Rightarrow> int \<Rightarrow> GridView \<Rightarrow> Point3d list list" where
  "gridLineStrings spacing gridsPerRef vp =
     (case gridBuilder spacing gridsPerRef vp of
        None \<Rightarrow> []
      | Some builder \<Rightarrow> lineStrings (ops builder))"

text \<open>
  An orthographic view from above onto the grid plane z = 0: the frustum cuts the plane
  in the square from (0, 0) to (80, 80), and a pixel is one meter wide.
\<close>

definition squareView :: GridView where
  "squareView = \<lparr> isCameraOn = False, normResult = True, eyeDot = 1, planeDefined = True,
     clipLoops = Some [Loop [LineString3d [(0, 0, 0), (80, 0, 0), (80, 80, 0), (0, 80, 0), (0, 0, 0)]]],
     polygonClip = (\<lambda>points. points),
     worldToViewZ = (\<lambda>p. 0),
     pixelSizeAtPoint = (\<lambda>p. 1),
     viewZ = (0, 0, 1),
     localRange = (\<lambda>points. ((0, 0), (80, 80))),
     gridToWorld = (\<lambda>p. (fst p, snd p, 0)),
     dotX = 0, dotY = 0,
     refSeparationX = (\<lambda>xRef. 0), refSeparationY = (\<lambda>yRef. 0) \<rparr>"

text \<open>The same view with a clip that the side planes of the frustum cut down to a triangle.\<close>

definition triangleView :: GridView where
  "triangleView = squareView\<lparr> polygonClip := (\<lambda>points. take 3 points) \<rparr>"

subsection \<open>Decorators and addFromDecorator\<close>

text \<open>
  The decorate method of a decorator is a callback: it is modelled by the calls it makes
  on the context, in order, the last of which may be a throw.
\<close>

datatype DecorateCall =
    CallAddDecoration GraphicType RenderGraphic
  | CallAddDecorationFromBuilder GraphicBuilder
  | CallAddCanvasDecoration CanvasDecoration bool
  | CallAddHtmlDecoration HTMLElement
  | CallDrawStandardGrid "real \<times> real" int GridView
  | CallSetSkyBox RenderGraphic
  | CallSetViewBackground RenderGraphic
  | Throw

text \<open>useCachedDecorations is an optional boolean: true, false or undefined.\<close>

record ViewportDecorator =
  decoratorId :: DecoratorId
  useCachedDecorations :: "bool option"
  decorate :: "DecorateCall list"

fun runCall :: "DecorateCall \<Rightarrow> DecorateContext \<Rightarrow> error + DecorateContext" where
  "runCall (CallAddDecoration type g) c = addDecoration type g c"
| "runCall (CallAddDecorationFromBuilder b) c = addDecorationFromBuilder b c"
| "runCall (CallAddCanvasDecoration d atFront) c = addCanvasDecoration d atFront c"
| "runCall (CallAddHtmlDecoration e) c = addHtmlDecoration e c"
| "runCall (CallDrawStandardGrid spacing gridsPerRef vp) c = drawStandardGrid spacing gridsPerRef vp c"
| "runCall (CallSetSkyBox g) c = Inr (setSkyBox g c)"
| "runCall (CallSetViewBackground g) c = Inr (setViewBackground g c)"
| "runCall Throw c = Inl CallbackError"

text \<open>Running the calls stops at the first exception, with the context as it then is.\<close>

fun runCalls :: "DecorateCall list \<Rightarrow> DecorateContext \<Rightarrow> DecorateContext \<times> error option" where
  "runCalls [] c = (c, None)"
| "runCalls (call # rest) c =
     (case runCall call c of
        Inl e \<Rightarrow> (c, Some e)
      | Inr c' \<Rightarrow> runCalls rest c')"

text \<open>decorator.decorate(this), with its entry in the trace.\<close>

definition invokeDecorate :: "ViewportDecorator \<Rightarrow> DecorateContext \<Rightarrow> DecorateContext \<times> error option" where
  "invokeDecorate decorator c =
     runCalls (decorate decorator)
       (c\<lparr> decorateInvocations := decorateInvocations c @ [decoratorId decorator] \<rparr>)"

fun restoreOne :: "CachedDecoration \<Rightarrow> DecorateContext \<Rightarrow> error + DecorateContext" where
  "restoreOne (CachedGraphic graphicOwner graphicType) c = addDecoration graphicType graphicOwner c"
| "restoreOne (CachedCanvas canvasDecoration atFront) c = addCanvasDecoration canvasDecoration atFront c"
| "restoreOne (CachedHtml htmlElement) c = addHtmlDecoration htmlElement c"

fun restoreCache :: "CachedDecoration list \<Rightarrow> DecorateContext \<Rightarrow> DecorateContext \<times> error option" where
  "restoreCache [] c = (c, None)"
| "restoreCache (cachedDecoration # rest) c =
     (case restoreOne cachedDecoration c of
        Inl e \<Rightarrow> (c, Some e)
      | Inr c' \<Rightarrow> restoreCache rest c')"

text \<open>
  addFromDecorator: the assertion stands before the try block; the finally block clears
  the slot on every way out of the try block.
\<close>

definition addFromDecorator :: "ViewportDecorator \<Rightarrow> DecorateContext \<Rightarrow> DecorateContext \<times> error option" where
  "addFromDecorator decorator c =
     (if curCacheableDecorator c \<noteq> None then (c, Some AssertionFailed)
      else
        (let tried =
           (if useCachedDecorations decorator = Some True then
              (case getCachedDecorations (decoratorId decorator) c of
                 Some cached \<Rightarrow> restoreCache cached c
               | None \<Rightarrow>
                   invokeDecorate decorator
                     (c\<lparr> curCacheableDecorator := Some (decoratorId decorator) \<rparr>))
            else invokeDecorate decorator c)
         in ((fst tried)\<lparr> curCacheableDecorator := None \<rparr>, snd tried)))"

text \<open>
  A sequence of calls of addFromDecorator on the same context, one for each decorator of a
  list, each on the context as the call before left it.
\<close>

definition addFromDecorators :: "ViewportDecorator list \<Rightarrow> DecorateContext \<Rightarrow> DecorateContext" where
  "addFromDecorators ds c = foldl (\<lambda>c' d. fst (addFromDecorator d c')) c ds"

text \<open>
  The add-calls a run of decorate makes: the calls before its throw that add a decoration
  (drawStandardGrid adds one unless it returns early).
\<close>

fun isThrow :: "DecorateCall \<Rightarrow> bool" where
  "isThrow Throw = True"
| "isThrow _ = False"



text \<open>
  The ordered lists of a frame: the four graphic lists, the canvas decorations and the
  children of the decoration div.
\<close>

definition drawOrder :: "DecorateContext \<Rightarrow>
    RenderGraphic list option \<times> RenderGraphic list option \<times> RenderGraphic list option \<times>
    RenderGraphic list option \<times> CanvasDecoration list option \<times> HTMLElement list" where
  "drawOrder c = (normal (decorations c), world (decorations c), worldOverlay (decorations c),
     viewOverlay (decorations c), canvasDecorations (decorations c), decorationDiv c)"

subsection \<open>SceneContext\<close>

datatype TileGraphicType = BackgroundMap | TileScene | Overlay

text \<open>
  TileLoadStatus: the three states insertMissingTile names, and any other state of the
  enum (its declaration is not among the sources).
\<close>

datatype TileLoadStatus = NotLoaded | Queued | Loading | OtherLoadStatus nat

record Tile =
  tileId :: nat
  loadStatus :: TileLoadStatus

type_synonym Id64String = string
type_synonym RenderPlanarClassifier = nat
type_synonym TileTreeReference = nat

record Scene =
  foreground :: "RenderGraphic list"
  background :: "RenderGraphic list"
  overlay :: "RenderGraphic list"
  planarClassifiers :: "Id64String \<rightharpoonup> RenderPlanarClassifier"

text \<open>SpatialClassificationProps.Classifier: the model id, and the name.\<close>

record Classifier =
  modelId :: Id64String
  name :: string

text \<open>
  The render target, as addPlanarClassifier uses it: the classifier it holds for a model
  id, and the classifier it creates for the properties of a classifier; None is
  undefined.
\<close>

record RenderTarget =
  getPlanarClassifier :: "Id64String \<Rightarrow> RenderPlanarClassifier option"
  createPlanarClassifier :: "Classifier \<Rightarrow> RenderPlanarClassifier option"

text \<open>
  The state of a SceneContext. collectedGraphics is the trace of the calls of
  classifier.collectGraphics(this, classifiedTree, tileTree): the classifier, the
  classified tree and the classifier's tree.
\<close>

record SceneContext =
  missingChildTiles :: bool
  scene :: Scene
  missingTiles :: "nat fset"
  graphicType :: TileGraphicType
  target :: RenderTarget
  collectedGraphics :: "(RenderPlanarClassifier \<times> TileTreeReference \<times> TileTreeReference) list"

definition newSceneContext :: "RenderTarget \<Rightarrow> SceneContext" where
  "newSceneContext tgt = \<lparr> missingChildTiles = False,
     scene = \<lparr> foreground = [], background = [], overlay = [], planarClassifiers = Map.empty \<rparr>,
     missingTiles = {||}, graphicType = TileScene, target = tgt, collectedGraphics = [] \<rparr>"

definition markChildrenLoading :: "SceneContext \<Rightarrow> SceneContext" where
  "markChildrenLoading c = c\<lparr> missingChildTiles := True \<rparr>"

definition hasMissingTiles :: "SceneContext \<Rightarrow> bool" where
  "hasMissingTiles c = (missingChildTiles c \<or> fcard (missingTiles c) > 0)"

definition outputGraphic :: "RenderGraphic \<Rightarrow> SceneContext \<Rightarrow> SceneContext" where
  "outputGraphic graphic c =
     (case graphicType c of
        BackgroundMap \<Rightarrow> c\<lparr> scene := (scene c)\<lparr> background := background (scene c) @ [graphic] \<rparr> \<rparr>
      | Overlay \<Rightarrow> c\<lparr> scene := (scene c)\<lparr> overlay := overlay (scene c) @ [graphic] \<rparr> \<rparr>
      | _ \<Rightarrow> c\<lparr> scene := (scene c)\<lparr> foreground := foreground (scene c) @ [graphic] \<rparr> \<rparr>)"

definition insertMissingTile :: "Tile \<Rightarrow> SceneContext \<Rightarrow> SceneContext" where
  "insertMissingTile tile c =
     (case loadStatus tile of
        NotLoaded \<Rightarrow> c\<lparr> missingTiles := finsert (tileId tile) (missingTiles c) \<rparr>
      | Queued \<Rightarrow> c\<lparr> missingTiles := finsert (tileId tile) (missingTiles c) \<rparr>
      | Loading \<Rightarrow> c\<lparr> missingTiles := finsert (tileId tile) (missingTiles c) \<rparr>
      | OtherLoadStatus s \<Rightarrow> c)"

text \<open>
  addPlanarClassifier returns the classifier (None is undefined) and the new context.
\<close>

definition addPlanarClassifier ::
    "Classifier \<Rightarrow> TileTreeReference \<Rightarrow> TileTreeReference \<Rightarrow> SceneContext
     \<Rightarrow> RenderPlanarClassifier option \<times> SceneContext" where
  "addPlanarClassifier props tileTree classifiedTree c =
     (let id = modelId props in
      case planarClassifiers (scene c) id of
        Some classifier \<Rightarrow> (Some classifier, c)
      | None \<Rightarrow>
          (let classifier =
             (case getPlanarClassifier (target c) id of
                Some held \<Rightarrow> Some held
              | None \<Rightarrow> createPlanarClassifier (target c) props)
           in case classifier of
             Some cl \<Rightarrow>
               (Some cl,
                c\<lparr> scene := (scene c)\<lparr> planarClassifiers := (planarClassifiers (scene c))(id \<mapsto> cl) \<rparr>,
                   collectedGraphics := collectedGraphics c @ [(cl, classifiedTree, tileTree)] \<rparr>)
           | None \<Rightarrow> (None, c)))"

text \<open>
  withGraphicType: func is a callback on the context; it returns the context as it left
  it, and the exception it threw, if any. The last assignment is reached only when func
  returns.
\<close>

definition withGraphicType ::
    "TileGraphicType \<Rightarrow> (SceneContext \<Rightarrow> SceneContext \<times> error option) \<Rightarrow> SceneContext
     \<Rightarrow> SceneContext \<times> error option" where
  "withGraphicType type func c =
     (let prevType = graphicType c;
          called = func (c\<lparr> graphicType := type \<rparr>)
      in case snd called of
           Some e \<Rightarrow> (fst called, Some e)
         | None \<Rightarrow> ((fst called)\<lparr> graphicType := prevType \<rparr>, None))"

text \<open>Sequencing of operations that may throw before mutating.\<close>

definition andThen :: "error + 'a \<Rightarrow> ('a \<Rightarrow> error + 'b) \<Rightarrow> error + 'b" where
  "andThen r f = (case r of Inl e \<Rightarrow> Inl e | Inr x \<Rightarrow> f x)"

text \<open>
  A callback that calls outputGraphic for each graphic of a list and returns, and one that
  throws at once.
\<close>

definition outputGraphics :: "RenderGraphic list \<Rightarrow> SceneContext \<Rightarrow> SceneContext \<times> error option" where
  "outputGraphics gs c = (foldl (\<lambda>c' g. outputGraphic g c') c gs, None)"

definition throwingCallback :: "SceneContext \<Rightarrow> SceneContext \<times> error option" where
  "throwingCallback c = (c, Some CallbackError)"

text \<open>The list of a scene that outputGraphic extends for a graphic type.\<close>

fun bucket :: "TileGraphicType \<Rightarrow> Scene \<Rightarrow> RenderGraphic list" where
  "bucket BackgroundMap s = background s"
| "bucket Overlay s = overlay s"
| "bucket TileScene s = foreground s"

text \<open>
  The calls on a SceneContext after its construction that the model covers, for
  statements about every history of a context.
\<close>

datatype SceneCall =
    CallMarkChildrenLoading
  | CallInsertMissingTile Tile
  | CallOutputGraphic RenderGraphic
  | CallAddPlanarClassifier Classifier TileTreeReference TileTreeReference

fun runSceneCall :: "SceneContext \<Rightarrow> SceneCall \<Rightarrow> SceneContext" where
  "runSceneCall c CallMarkChildrenLoading = markChildrenLoading c"
| "runSceneCall c (CallInsertMissingTile tile) = insertMissingTile tile c"
| "runSceneCall c (CallOutputGraphic g) = outputGraphic g c"
| "runSceneCall c (CallAddPlanarClassifier props tileTree classifiedTree) =
     snd (addPlanarClassifier props tileTree classifiedTree c)"

definition isMissing :: "TileLoadStatus \<Rightarrow> bool" where
  "isMissing s = (s = NotLoaded \<or> s = Queued \<or> s = Loading)"

text \<open>A render target that holds one classifier, for model 0x10, and can create none.\<close>

definition holdingTarget :: RenderTarget where
  "holdingTarget = \<lparr> getPlanarClassifier = (\<lambda>id. if id = ''0x10'' then Some 7 else None),
     createPlanarClassifier = (\<lambda>props. None) \<rparr>"

text \<open>A render target that holds no classifier and creates classifier 9 for every model.\<close>

definition creatingTarget :: RenderTarget where
  "creatingTarget = \<lparr> getPlanarClassifier = (\<lambda>id. None),
     createPlanarClassifier = (\<lambda>props. Some 9) \<rparr>"

definition canvasList :: "error + DecorateContext \<Rightarrow> CanvasDecoration list option" where
  "canvasList r = (case r of Inl e \<Rightarrow> None | Inr c \<Rightarrow> canvasDecorations (decorations c))"

subsection \<open>What a recording decorator leaves in the cache\<close>

text \<open>
  The cached decoration that a call of a recording decorator appends to the cache: the
  argument of its appendToCache, if it makes one.
\<close>

fun recorded :: "DecorateCall \<Rightarrow> CachedDecoration option" where
  "recorded (CallAddDecoration type g) = Some (CachedGraphic (createGraphicOwner g) type)"
| "recorded (CallAddDecorationFromBuilder b) =
     Some (CachedGraphic (createGraphicOwner (finish b)) (builderType b))"
| "recorded (CallAddCanvasDecoration d atFront) = Some (CachedCanvas d atFront)"
| "recorded (CallAddHtmlDecoration e) = Some (CachedHtml e)"
| "recorded (CallDrawStandardGrid spacing gridsPerRef vp) =
     (case gridBuilder spacing gridsPerRef vp of
        None \<Rightarrow> None
      | Some b \<Rightarrow> Some (CachedGraphic (createGraphicOwner (finish b)) (builderType b)))"
| "recorded (CallSetSkyBox g) = None"
| "recorded (CallSetViewBackground g) = None"
| "recorded Throw = None"

definition recordedAll :: "DecorateCall list \<Rightarrow> CachedDecoration list" where
  "recordedAll calls = List.map_filter recorded (takeWhile (\<lambda>call. \<not> isThrow call) calls)"


subsection \<open>Example decorators\<close>

text \<open>A caching decorator that adds a canvas decoration and then throws.\<close>

definition throwingDecorator :: ViewportDecorator where
  "throwingDecorator = \<lparr> decoratorId = 1, useCachedDecorations = Some True,
     decorate = [CallAddCanvasDecoration 5 False, Throw] \<rparr>"

text \<open>
  A decorator as in Decorations.test.ts with caching disabled: useCachedDecorations is
  undefined, and decorate adds one canvas decoration.
\<close>

definition nonCachableDecorator :: ViewportDecorator where
  "nonCachableDecorator = \<lparr> decoratorId = 2, useCachedDecorations = None,
     decorate = [CallAddCanvasDecoration 6 False] \<rparr>"



section \<open>Properties\<close>

subsection \<open>The operations of DecorateContext, idle and recording\<close>

lemma addToList_fields [simp]:
  "curCacheableDecorator (addToList t g c) = curCacheableDecorator c"
  "decorationCache (addToList t g c) = decorationCache c"
  "decorateInvocations (addToList t g c) = decorateInvocations c"
  "decorationDiv (addToList t g c) = decorationDiv c"
  by (cases t; simp add: setViewBackground_def)+

lemma insertCanvas_fields [simp]:
  "curCacheableDecorator (insertCanvas d f c) = curCacheableDecorator c"
  "decorationCache (insertCanvas d f c) = decorationCache c"
  "decorateInvocations (insertCanvas d f c) = decorateInvocations c"
  "decorationDiv (insertCanvas d f c) = decorationDiv c"
  by (simp_all add: insertCanvas_def Let_def)

lemma addCachedDecoration_fields [simp]:
  "curCacheableDecorator (addCachedDecoration k cd c) = curCacheableDecorator c"
  "decorations (addCachedDecoration k cd c) = decorations c"
  "decorateInvocations (addCachedDecoration k cd c) = decorateInvocations c"
  "decorationDiv (addCachedDecoration k cd c) = decorationDiv c"
  by (simp_all add: addCachedDecoration_def)

lemma setters_fields [simp]:
  "curCacheableDecorator (setSkyBox g c) = curCacheableDecorator c"
  "decorationCache (setSkyBox g c) = decorationCache c"
  "decorateInvocations (setSkyBox g c) = decorateInvocations c"
  "decorationDiv (setSkyBox g c) = decorationDiv c"
  "curCacheableDecorator (setViewBackground g c) = curCacheableDecorator c"
  "decorationCache (setViewBackground g c) = decorationCache c"
  "decorateInvocations (setViewBackground g c) = decorateInvocations c"
  "decorationDiv (setViewBackground g c) = decorationDiv c"
  by (simp_all add: setSkyBox_def setViewBackground_def)

lemma addDecoration_idle:
  "curCacheableDecorator c = None \<Longrightarrow> addDecoration t g c = Inr (addToList t g c)"
  by (simp add: addDecoration_def)

lemma addDecoration_recording:
  "curCacheableDecorator c = Some k \<Longrightarrow>
   addDecoration t g c =
     Inr (addToList t (GraphicOwner g) (addCachedDecoration k (CachedGraphic (GraphicOwner g) t) c))"
  by (simp add: addDecoration_def appendToCache_def createGraphicOwner_def Let_def)

lemma addCanvasDecoration_idle:
  "curCacheableDecorator c = None \<Longrightarrow> addCanvasDecoration d f c = Inr (insertCanvas d f c)"
  by (simp add: addCanvasDecoration_def)

lemma addCanvasDecoration_recording:
  "curCacheableDecorator c = Some k \<Longrightarrow>
   addCanvasDecoration d f c = Inr (insertCanvas d f (addCachedDecoration k (CachedCanvas d f) c))"
  by (simp add: addCanvasDecoration_def appendToCache_def)

lemma addHtmlDecoration_idle:
  "curCacheableDecorator c = None \<Longrightarrow>
   addHtmlDecoration e c = Inr (c\<lparr> decorationDiv := appendChild e (decorationDiv c) \<rparr>)"
  by (simp add: addHtmlDecoration_def)

lemma addHtmlDecoration_recording:
  "curCacheableDecorator c = Some k \<Longrightarrow>
   addHtmlDecoration e c =
     Inr ((addCachedDecoration k (CachedHtml e) c)
            \<lparr> decorationDiv := appendChild e (decorationDiv c) \<rparr>)"
  by (simp add: addHtmlDecoration_def appendToCache_def)

text \<open>The assertion of appendToCache never fails: it is called under a test of the slot.\<close>

lemma addDecoration_no_error: "addDecoration t g c \<noteq> Inl e"
  by (cases "curCacheableDecorator c") (simp_all add: addDecoration_idle addDecoration_recording)

lemma addCanvasDecoration_no_error: "addCanvasDecoration d f c \<noteq> Inl e"
  by (cases "curCacheableDecorator c")
     (simp_all add: addCanvasDecoration_idle addCanvasDecoration_recording)

lemma addHtmlDecoration_no_error: "addHtmlDecoration x c \<noteq> Inl e"
  by (cases "curCacheableDecorator c")
     (simp_all add: addHtmlDecoration_idle addHtmlDecoration_recording)

lemma drawStandardGrid_no_error: "drawStandardGrid sp n vp c \<noteq> Inl e"
  by (simp add: drawStandardGrid_def addDecorationFromBuilder_def addDecoration_no_error
      split: option.split)

lemma runCall_Inl: "runCall call c = Inl e \<Longrightarrow> isThrow call \<and> e = CallbackError"
  by (cases call)
     (simp_all add: addDecoration_no_error addCanvasDecoration_no_error
        addHtmlDecoration_no_error drawStandardGrid_no_error addDecorationFromBuilder_def)

lemma runCalls_error: "snd (runCalls calls c) = Some e \<Longrightarrow> e = CallbackError"
  by (induction calls arbitrary: c) (auto split: sum.splits dest: runCall_Inl)

subsection \<open>A decorator that does not record leaves the slot, the cache and the trace alone\<close>



lemma restoreOne_idle:
  assumes "curCacheableDecorator c = None"
  shows "\<exists>c'. restoreOne cd c = Inr c' \<and> curCacheableDecorator c' = None
         \<and> decorationCache c' = decorationCache c
         \<and> decorateInvocations c' = decorateInvocations c"
  using assms
  by (cases cd)
     (auto simp: addDecoration_idle addCanvasDecoration_idle addHtmlDecoration_idle)

lemma restoreCache_idle:
  "curCacheableDecorator c = None \<Longrightarrow>
   snd (restoreCache cached c) = None
   \<and> curCacheableDecorator (fst (restoreCache cached c)) = None
   \<and> decorationCache (fst (restoreCache cached c)) = decorationCache c
   \<and> decorateInvocations (fst (restoreCache cached c)) = decorateInvocations c"
proof (induction cached arbitrary: c)
  case Nil
  then show ?case by simp
next
  case (Cons cd rest)
  from restoreOne_idle [OF Cons.prems, of cd] obtain c' where
    c': "restoreOne cd c = Inr c'" "curCacheableDecorator c' = None"
        "decorationCache c' = decorationCache c"
        "decorateInvocations c' = decorateInvocations c"
    by blast
  with Cons.IH [of c'] show ?case by simp
qed

lemma addFromDecorator_clears:
  "curCacheableDecorator c = None \<Longrightarrow> curCacheableDecorator (fst (addFromDecorator d c)) = None"
  by (simp add: addFromDecorator_def Let_def)

lemma addFromDecorator_error:
  assumes "curCacheableDecorator c = None"
  shows "snd (addFromDecorator d c) \<noteq> Some AssertionFailed"
proof -
  have "snd (invokeDecorate d x) \<noteq> Some AssertionFailed" for x
    using runCalls_error [of "decorate d" _ AssertionFailed]
    by (auto simp: invokeDecorate_def)
  moreover have "snd (restoreCache cached c) \<noteq> Some AssertionFailed" for cached
    using restoreCache_idle [OF assms, of cached] by simp
  ultimately show ?thesis
    using assms by (simp add: addFromDecorator_def Let_def split: option.splits)
qed


lemma addFromDecorators_clears:
  "curCacheableDecorator c = None \<Longrightarrow> curCacheableDecorator (addFromDecorators ds c) = None"
  unfolding addFromDecorators_def
  by (induction ds arbitrary: c) (simp_all add: addFromDecorator_clears)


subsection \<open>Canvas decorations\<close>

text \<open>
  C1, as the code has it. Three calls of addCanvasDecoration on a new DecorateContext with
  atFront false, false, true leave the canvas decorations in the order
  [second, first, third]. The rule of every call: when the list is empty or atFront is
  true the decoration is pushed at the end of the list, otherwise it is put at its start.
\<close>

theorem C1_canvas_decoration_order:
  "canvasList (andThen (andThen (addCanvasDecoration first False (newDecorateContext cache elems))
       (addCanvasDecoration second False)) (addCanvasDecoration third True))
     = Some [second, first, third]
   \<and> canvasList (addCanvasDecoration d atFront c)
     = Some (case canvasDecorations (decorations c) of
               None \<Rightarrow> [d]
             | Some list \<Rightarrow> if list = [] \<or> atFront then list @ [d] else d # list)"
proof
  show "canvasList (andThen (andThen (addCanvasDecoration first False (newDecorateContext cache elems))
       (addCanvasDecoration second False)) (addCanvasDecoration third True))
     = Some [second, first, third]"
    by (simp add: canvasList_def andThen_def addCanvasDecoration_def insertCanvas_def
        newDecorateContext_def emptyDecorations_def)
  show "canvasList (addCanvasDecoration d atFront c)
     = Some (case canvasDecorations (decorations c) of
               None \<Rightarrow> [d]
             | Some list \<Rightarrow> if list = [] \<or> atFront then list @ [d] else d # list)"
    by (cases "curCacheableDecorator c")
       (auto simp: canvasList_def addCanvasDecoration_idle addCanvasDecoration_recording
          insertCanvas_def split: option.splits)
qed

theorem C1_canvas_decoration_order_witness:
  "canvasList (andThen (andThen (addCanvasDecoration 1 False (newDecorateContext Map.empty []))
       (addCanvasDecoration 2 False)) (addCanvasDecoration 3 True))
     = Some [2, 1, 3]
   \<and> canvasList (addCanvasDecoration 7 False
        ((newDecorateContext Map.empty [])
           \<lparr> decorations := emptyDecorations\<lparr> canvasDecorations := Some [5, 6] \<rparr> \<rparr>))
     = Some [7, 5, 6]"
  using C1_canvas_decoration_order [where first = 1 and second = 2 and third = 3
      and cache = Map.empty and elems = "[]" and d = 7 and atFront = False
      and c = "(newDecorateContext Map.empty [])
         \<lparr> decorations := emptyDecorations\<lparr> canvasDecorations := Some [5, 6] \<rparr> \<rparr>"]
  by simp

text \<open>
  C1, as the spec states it, fails: with the decorations 1, 2, 3 the final order is
  [2, 1, 3], not [3, 1, 2].
\<close>

theorem C1_counterexample:
  "canvasList (andThen (andThen (addCanvasDecoration 1 False (newDecorateContext Map.empty []))
       (addCanvasDecoration 2 False)) (addCanvasDecoration 3 True))
     = Some [2, 1, 3]
   \<and> canvasList (andThen (andThen (addCanvasDecoration 1 False (newDecorateContext Map.empty []))
       (addCanvasDecoration 2 False)) (addCanvasDecoration 3 True))
     \<noteq> Some [3, 1, 2]"
  by (simp add: canvasList_def andThen_def addCanvasDecoration_def insertCanvas_def
      newDecorateContext_def emptyDecorations_def)

subsection \<open>The cache-recording slot\<close>

text \<open>
  C4. When addFromDecorator is entered with the slot empty (its assertion), the slot is
  empty again when it exits, whether decorate returned or threw, and whether the cache was
  replayed; so the assertion of the next addFromDecorator on the same context holds, and
  the slot is empty after any sequence of calls.
\<close>

theorem C4_slot_cleared:
  "curCacheableDecorator c = None \<Longrightarrow>
   curCacheableDecorator (fst (addFromDecorator d c)) = None
   \<and> snd (addFromDecorator d' (fst (addFromDecorator d c))) \<noteq> Some AssertionFailed
   \<and> curCacheableDecorator (addFromDecorators ds c) = None
   \<and> snd (addFromDecorator d' (addFromDecorators ds c)) \<noteq> Some AssertionFailed"
  using addFromDecorator_clears [of c d]
    addFromDecorator_error [of "fst (addFromDecorator d c)" d']
    addFromDecorators_clears [of c ds]
    addFromDecorator_error [of "addFromDecorators ds c" d']
  by simp

text \<open>The witness: a decorator that throws from decorate, then a second decorator.\<close>

theorem C4_slot_cleared_witness:
  "curCacheableDecorator (newDecorateContext Map.empty []) = None
   \<and> snd (addFromDecorator throwingDecorator (newDecorateContext Map.empty [])) = Some CallbackError
   \<and> curCacheableDecorator (fst (addFromDecorator throwingDecorator (newDecorateContext Map.empty []))) = None
   \<and> snd (addFromDecorator nonCachableDecorator
        (fst (addFromDecorator throwingDecorator (newDecorateContext Map.empty []))))
      \<noteq> Some AssertionFailed"
proof -
  have idle: "curCacheableDecorator (newDecorateContext Map.empty []) = None"
    by (simp add: newDecorateContext_def)
  have threw: "snd (addFromDecorator throwingDecorator (newDecorateContext Map.empty [])) = Some CallbackError"
    by (simp add: addFromDecorator_def throwingDecorator_def newDecorateContext_def
        getCachedDecorations_def invokeDecorate_def addCanvasDecoration_recording Let_def)
  from C4_slot_cleared [OF idle, of throwingDecorator nonCachableDecorator "[]"] idle threw
  show ?thesis by simp
qed

subsection \<open>Decorators that do not cache\<close>



subsection \<open>SceneContext: missing tiles\<close>

lemma fcard_pos_iff: "(0 < fcard A) = (A \<noteq> {||})"
  using fcard_0_eq [of A] by (cases "fcard A") auto

lemma hasMissingTiles_iff: "hasMissingTiles c \<longleftrightarrow> (missingTiles c \<noteq> {||} \<or> missingChildTiles c)"
  by (auto simp: hasMissingTiles_def fcard_pos_iff)

lemma insertMissingTile_set:
  "missingTiles (insertMissingTile tile c) =
     (if isMissing (loadStatus tile) then finsert (tileId tile) (missingTiles c) else missingTiles c)"
  by (cases "loadStatus tile") (simp_all add: insertMissingTile_def isMissing_def)

lemma insertMissingTile_flag:
  "missingChildTiles (insertMissingTile tile c) = missingChildTiles c"
  by (cases "loadStatus tile") (simp_all add: insertMissingTile_def)

lemma outputGraphic_missing:
  "missingChildTiles (outputGraphic g c) = missingChildTiles c"
  "missingTiles (outputGraphic g c) = missingTiles c"
  by (cases "graphicType c"; simp add: outputGraphic_def)+

lemma addPlanarClassifier_missing:
  "missingChildTiles (snd (addPlanarClassifier props t ct c)) = missingChildTiles c"
  "missingTiles (snd (addPlanarClassifier props t ct c)) = missingTiles c"
  by (simp_all add: addPlanarClassifier_def Let_def split: option.splits)

lemma runSceneCall_flag:
  "missingChildTiles (runSceneCall c call) = (missingChildTiles c \<or> call = CallMarkChildrenLoading)"
  by (cases call)
     (simp_all add: markChildrenLoading_def insertMissingTile_flag outputGraphic_missing
        addPlanarClassifier_missing)

lemma history_flag:
  "missingChildTiles (foldl runSceneCall c calls)
     = (missingChildTiles c \<or> CallMarkChildrenLoading \<in> set calls)"
  by (induction calls arbitrary: c) (auto simp: runSceneCall_flag)

lemma history_tiles:
  "(missingTiles (foldl runSceneCall c calls) \<noteq> {||})
     = (missingTiles c \<noteq> {||}
        \<or> (\<exists>tile. CallInsertMissingTile tile \<in> set calls \<and> isMissing (loadStatus tile)))"
proof (induction calls arbitrary: c)
  case Nil
  then show ?case by simp
next
  case (Cons call calls)
  show ?case
    unfolding foldl_Cons Cons.IH
    by (cases call)
       (auto simp: markChildrenLoading_def insertMissingTile_set outputGraphic_missing
          addPlanarClassifier_missing)
qed

text \<open>
  C8. insertMissingTile adds the tile to the set of missing tiles when its load status is
  NotLoaded, Queued or Loading, and leaves the set as it is for every other status.
  hasMissingTiles is true if and only if the set is not empty or the flag for loading
  children is set; and after any history of calls on a new SceneContext, that is if and
  only if a tile with one of the three statuses was inserted or markChildrenLoading was
  called.
\<close>

theorem C8_missing_tiles:
  "missingTiles (insertMissingTile tile c) =
     (if loadStatus tile = NotLoaded \<or> loadStatus tile = Queued \<or> loadStatus tile = Loading
      then finsert (tileId tile) (missingTiles c) else missingTiles c)
   \<and> hasMissingTiles c = (missingTiles c \<noteq> {||} \<or> missingChildTiles c)
   \<and> hasMissingTiles (foldl runSceneCall (newSceneContext tgt) calls)
      = ((\<exists>tile. CallInsertMissingTile tile \<in> set calls
            \<and> (loadStatus tile = NotLoaded \<or> loadStatus tile = Queued \<or> loadStatus tile = Loading))
         \<or> CallMarkChildrenLoading \<in> set calls)"
proof (intro conjI)
  show "missingTiles (insertMissingTile tile c) =
     (if loadStatus tile = NotLoaded \<or> loadStatus tile = Queued \<or> loadStatus tile = Loading
      then finsert (tileId tile) (missingTiles c) else missingTiles c)"
    using insertMissingTile_set [of tile c] by (simp add: isMissing_def)
  show "hasMissingTiles c = (missingTiles c \<noteq> {||} \<or> missingChildTiles c)"
    by (rule hasMissingTiles_iff)
  have new: "missingTiles (newSceneContext tgt) = {||}" "\<not> missingChildTiles (newSceneContext tgt)"
    by (simp_all add: newSceneContext_def)
  show "hasMissingTiles (foldl runSceneCall (newSceneContext tgt) calls)
      = ((\<exists>tile. CallInsertMissingTile tile \<in> set calls
            \<and> (loadStatus tile = NotLoaded \<or> loadStatus tile = Queued \<or> loadStatus tile = Loading))
         \<or> CallMarkChildrenLoading \<in> set calls)"
    unfolding hasMissingTiles_iff history_flag history_tiles
    using new by (simp add: isMissing_def)
qed


theorem C8_missing_tiles_witness:
  "missingTiles (insertMissingTile \<lparr> tileId = 1, loadStatus = Queued \<rparr> (newSceneContext holdingTarget))
     = {|1|}
   \<and> missingTiles (insertMissingTile \<lparr> tileId = 2, loadStatus = OtherLoadStatus 3 \<rparr>
        (newSceneContext holdingTarget)) = {||}
   \<and> \<not> hasMissingTiles (foldl runSceneCall (newSceneContext holdingTarget)
        [CallInsertMissingTile \<lparr> tileId = 2, loadStatus = OtherLoadStatus 3 \<rparr>])
   \<and> hasMissingTiles (foldl runSceneCall (newSceneContext holdingTarget)
        [CallInsertMissingTile \<lparr> tileId = 2, loadStatus = OtherLoadStatus 3 \<rparr>,
         CallMarkChildrenLoading])"
proof -
  have empty: "missingTiles (newSceneContext holdingTarget) = {||}"
    by (simp add: newSceneContext_def)
  show ?thesis
    using
      C8_missing_tiles [of "\<lparr> tileId = 1, loadStatus = Queued \<rparr>" "newSceneContext holdingTarget"
        holdingTarget "[]"]
      C8_missing_tiles [of "\<lparr> tileId = 2, loadStatus = OtherLoadStatus 3 \<rparr>"
        "newSceneContext holdingTarget" holdingTarget
        "[CallInsertMissingTile \<lparr> tileId = 2, loadStatus = OtherLoadStatus 3 \<rparr>]"]
      C8_missing_tiles [of "\<lparr> tileId = 2, loadStatus = OtherLoadStatus 3 \<rparr>"
        "newSceneContext holdingTarget" holdingTarget
        "[CallInsertMissingTile \<lparr> tileId = 2, loadStatus = OtherLoadStatus 3 \<rparr>,
          CallMarkChildrenLoading]"]
      empty
    by simp
qed

subsection \<open>SceneContext: planar classifiers\<close>

lemma addPlanarClassifier_seen:
  "planarClassifiers (scene c) (modelId props) = Some cl \<Longrightarrow>
   addPlanarClassifier props tileTree classifiedTree c = (Some cl, c)"
  by (simp add: addPlanarClassifier_def)

lemma addPlanarClassifier_held:
  "planarClassifiers (scene c) (modelId props) = None \<Longrightarrow>
   getPlanarClassifier (target c) (modelId props) = Some cl \<Longrightarrow>
   addPlanarClassifier props tileTree classifiedTree c =
     (Some cl,
      c\<lparr> scene := (scene c)\<lparr> planarClassifiers := (planarClassifiers (scene c))(modelId props \<mapsto> cl) \<rparr>,
         collectedGraphics := collectedGraphics c @ [(cl, classifiedTree, tileTree)] \<rparr>)"
  by (simp add: addPlanarClassifier_def)

lemma addPlanarClassifier_created:
  "planarClassifiers (scene c) (modelId props) = None \<Longrightarrow>
   getPlanarClassifier (target c) (modelId props) = None \<Longrightarrow>
   createPlanarClassifier (target c) props = Some cl \<Longrightarrow>
   addPlanarClassifier props tileTree classifiedTree c =
     (Some cl,
      c\<lparr> scene := (scene c)\<lparr> planarClassifiers := (planarClassifiers (scene c))(modelId props \<mapsto> cl) \<rparr>,
         collectedGraphics := collectedGraphics c @ [(cl, classifiedTree, tileTree)] \<rparr>)"
  by (simp add: addPlanarClassifier_def)

lemma addPlanarClassifier_none:
  "planarClassifiers (scene c) (modelId props) = None \<Longrightarrow>
   getPlanarClassifier (target c) (modelId props) = None \<Longrightarrow>
   createPlanarClassifier (target c) props = None \<Longrightarrow>
   addPlanarClassifier props tileTree classifiedTree c = (None, c)"
  by (simp add: addPlanarClassifier_def)

lemma addPlanarClassifier_recorded:
  "fst (addPlanarClassifier props tileTree classifiedTree c) = Some cl \<Longrightarrow>
   planarClassifiers (scene (snd (addPlanarClassifier props tileTree classifiedTree c))) (modelId props)
     = Some cl"
  by (auto simp: addPlanarClassifier_def Let_def split: option.splits)

lemma addPlanarClassifier_memo:
  assumes "fst (addPlanarClassifier props tileTree classifiedTree c) = Some cl"
    and "modelId props' = modelId props"
  shows "addPlanarClassifier props' tileTree' classifiedTree'
           (snd (addPlanarClassifier props tileTree classifiedTree c))
         = (Some cl, snd (addPlanarClassifier props tileTree classifiedTree c))"
  using addPlanarClassifier_recorded [OF assms(1)] assms(2)
  by (simp add: addPlanarClassifier_seen)

text \<open>
  C9. addPlanarClassifier, by the model id of the classifier:
  \<^item> an entry of the scene's map is returned as it is, and the context is unchanged (no
    graphics are collected);
  \<^item> otherwise the classifier the target holds is taken, or else the one it creates; it is
    recorded in the scene's map, its graphics are collected for the classified tree and
    the classifier's tree, and it is returned;
  \<^item> when the target holds none and creates none, undefined is returned and the context
    is unchanged;
  \<^item> a second call for the same model id returns the classifier of the first call and
    changes nothing.
\<close>

theorem C9_planar_classifier:
  "(planarClassifiers (scene c) (modelId props) = Some cl \<longrightarrow>
      addPlanarClassifier props tileTree classifiedTree c = (Some cl, c))
   \<and> (planarClassifiers (scene c) (modelId props) = None
        \<and> getPlanarClassifier (target c) (modelId props) = Some cl \<longrightarrow>
      addPlanarClassifier props tileTree classifiedTree c =
        (Some cl,
         c\<lparr> scene := (scene c)\<lparr> planarClassifiers := (planarClassifiers (scene c))(modelId props \<mapsto> cl) \<rparr>,
            collectedGraphics := collectedGraphics c @ [(cl, classifiedTree, tileTree)] \<rparr>))
   \<and> (planarClassifiers (scene c) (modelId props) = None
        \<and> getPlanarClassifier (target c) (modelId props) = None
        \<and> createPlanarClassifier (target c) props = Some cl \<longrightarrow>
      addPlanarClassifier props tileTree classifiedTree c =
        (Some cl,
         c\<lparr> scene := (scene c)\<lparr> planarClassifiers := (planarClassifiers (scene c))(modelId props \<mapsto> cl) \<rparr>,
            collectedGraphics := collectedGraphics c @ [(cl, classifiedTree, tileTree)] \<rparr>))
   \<and> (planarClassifiers (scene c) (modelId props) = None
        \<and> getPlanarClassifier (target c) (modelId props) = None
        \<and> createPlanarClassifier (target c) props = None \<longrightarrow>
      addPlanarClassifier props tileTree classifiedTree c = (None, c))
   \<and> (fst (addPlanarClassifier props tileTree classifiedTree c) = Some cl
        \<and> modelId props' = modelId props \<longrightarrow>
      addPlanarClassifier props' tileTree' classifiedTree'
          (snd (addPlanarClassifier props tileTree classifiedTree c))
        = (Some cl, snd (addPlanarClassifier props tileTree classifiedTree c)))"
  using addPlanarClassifier_seen [of c props cl tileTree classifiedTree]
    addPlanarClassifier_held [of c props cl tileTree classifiedTree]
    addPlanarClassifier_created [of c props cl tileTree classifiedTree]
    addPlanarClassifier_none [of c props tileTree classifiedTree]
    addPlanarClassifier_memo [of props tileTree classifiedTree c cl props' tileTree' classifiedTree']
  by blast

text \<open>
  The witness: a target that holds classifier 7 for model 0x10 (reused, recorded, collected,
  and returned again by a second call), a target that creates classifier 9, and a model
  for which the first target has no classifier.
\<close>

theorem C9_planar_classifier_witness:
  "addPlanarClassifier \<lparr> modelId = ''0x10'', name = ''a'' \<rparr> 3 4 (newSceneContext holdingTarget)
     = (Some 7, (newSceneContext holdingTarget)
          \<lparr> scene := (scene (newSceneContext holdingTarget))
               \<lparr> planarClassifiers := [''0x10'' \<mapsto> 7] \<rparr>,
             collectedGraphics := [(7, 4, 3)] \<rparr>)
   \<and> addPlanarClassifier \<lparr> modelId = ''0x10'', name = ''b'' \<rparr> 5 6
        (snd (addPlanarClassifier \<lparr> modelId = ''0x10'', name = ''a'' \<rparr> 3 4 (newSceneContext holdingTarget)))
     = (Some 7, snd (addPlanarClassifier \<lparr> modelId = ''0x10'', name = ''a'' \<rparr> 3 4
          (newSceneContext holdingTarget)))
   \<and> fst (addPlanarClassifier \<lparr> modelId = ''0x10'', name = ''a'' \<rparr> 3 4 (newSceneContext creatingTarget))
     = Some 9
   \<and> addPlanarClassifier \<lparr> modelId = ''0x20'', name = ''a'' \<rparr> 3 4 (newSceneContext holdingTarget)
     = (None, newSceneContext holdingTarget)"
proof -
  have new: "planarClassifiers (scene (newSceneContext tgt)) = Map.empty"
    "target (newSceneContext tgt) = tgt" "collectedGraphics (newSceneContext tgt) = []" for tgt
    by (simp_all add: newSceneContext_def)
  have held: "getPlanarClassifier holdingTarget ''0x10'' = Some 7"
    "getPlanarClassifier holdingTarget ''0x20'' = None"
    "createPlanarClassifier holdingTarget \<lparr> modelId = ''0x20'', name = ''a'' \<rparr> = None"
    by (simp_all add: holdingTarget_def)
  have created: "getPlanarClassifier creatingTarget ''0x10'' = None"
    "createPlanarClassifier creatingTarget \<lparr> modelId = ''0x10'', name = ''a'' \<rparr> = Some 9"
    by (simp_all add: creatingTarget_def)
  let ?a = "\<lparr> modelId = ''0x10'', name = ''a'' \<rparr>"
  let ?b = "\<lparr> modelId = ''0x10'', name = ''b'' \<rparr>"
  let ?other = "\<lparr> modelId = ''0x20'', name = ''a'' \<rparr>"
  note first = C9_planar_classifier [of "newSceneContext holdingTarget" ?a 7 3 4 ?b 5 6]
  from first have reused: "addPlanarClassifier ?a 3 4 (newSceneContext holdingTarget)
     = (Some 7, (newSceneContext holdingTarget)
          \<lparr> scene := (scene (newSceneContext holdingTarget))
               \<lparr> planarClassifiers := [''0x10'' \<mapsto> 7] \<rparr>,
             collectedGraphics := [(7, 4, 3)] \<rparr>)"
    using new held by simp
  then have "fst (addPlanarClassifier ?a 3 4 (newSceneContext holdingTarget)) = Some 7"
    by simp
  with first have again:
    "addPlanarClassifier ?b 5 6 (snd (addPlanarClassifier ?a 3 4 (newSceneContext holdingTarget)))
       = (Some 7, snd (addPlanarClassifier ?a 3 4 (newSceneContext holdingTarget)))"
    by simp
  from C9_planar_classifier [of "newSceneContext creatingTarget" ?a 9 3 4 ?a 3 4]
  have made: "fst (addPlanarClassifier ?a 3 4 (newSceneContext creatingTarget)) = Some 9"
    using new created by simp
  from C9_planar_classifier [of "newSceneContext holdingTarget" ?other 7 3 4 ?other 3 4]
  have none: "addPlanarClassifier ?other 3 4 (newSceneContext holdingTarget)
     = (None, newSceneContext holdingTarget)"
    using new held by simp
  from reused again made none show ?thesis
    by (intro conjI)
qed

subsection \<open>SceneContext: the current graphic type\<close>

lemma outputGraphic_bucket:
  "graphicType c = t \<Longrightarrow>
   bucket t (scene (outputGraphic g c)) = bucket t (scene c) @ [g]
   \<and> (\<forall>t'. t' \<noteq> t \<longrightarrow> bucket t' (scene (outputGraphic g c)) = bucket t' (scene c))
   \<and> graphicType (outputGraphic g c) = t"
  by (cases t) (auto simp: outputGraphic_def; case_tac t'; simp)+

lemma outputGraphics_bucket:
  "graphicType c = t \<Longrightarrow>
   bucket t (scene (fst (outputGraphics gs c))) = bucket t (scene c) @ gs
   \<and> (\<forall>t'. t' \<noteq> t \<longrightarrow> bucket t' (scene (fst (outputGraphics gs c))) = bucket t' (scene c))
   \<and> graphicType (fst (outputGraphics gs c)) = t"
proof (induction gs arbitrary: c)
  case Nil
  then show ?case by (simp add: outputGraphics_def)
next
  case (Cons g gs)
  from outputGraphic_bucket [OF Cons.prems, of g]
  have step: "bucket t (scene (outputGraphic g c)) = bucket t (scene c) @ [g]"
    "\<forall>t'. t' \<noteq> t \<longrightarrow> bucket t' (scene (outputGraphic g c)) = bucket t' (scene c)"
    "graphicType (outputGraphic g c) = t"
    by simp_all
  from Cons.IH [OF step(3)] step(1,2)
  show ?case by (simp add: outputGraphics_def)
qed

lemma withGraphicType_returns:
  "snd (func (c\<lparr> graphicType := t \<rparr>)) = None \<Longrightarrow>
   withGraphicType t func c = ((fst (func (c\<lparr> graphicType := t \<rparr>)))\<lparr> graphicType := graphicType c \<rparr>, None)"
  by (simp add: withGraphicType_def Let_def)

lemma withGraphicType_throws:
  "snd (func (c\<lparr> graphicType := t \<rparr>)) \<noteq> None \<Longrightarrow>
   withGraphicType t func c = func (c\<lparr> graphicType := t \<rparr>)"
  by (cases "func (c\<lparr> graphicType := t \<rparr>)") (auto simp: withGraphicType_def Let_def)

text \<open>
  C2, as the code has it. withGraphicType saves the current graphic type, sets it to type
  and invokes func. When func returns, the previous type is restored. When func throws,
  the exception leaves withGraphicType before its last assignment: the result is the
  context as func left it, and the previous type is not restored. For a callback that
  outputs graphics, they are appended to the list of the scene for type and to no other.
\<close>

theorem C2_withGraphicType:
  "(snd (func (c\<lparr> graphicType := t \<rparr>)) = None \<longrightarrow>
      graphicType (fst (withGraphicType t func c)) = graphicType c
      \<and> snd (withGraphicType t func c) = None)
   \<and> (snd (func (c\<lparr> graphicType := t \<rparr>)) \<noteq> None \<longrightarrow>
      withGraphicType t func c = func (c\<lparr> graphicType := t \<rparr>))
   \<and> bucket t (scene (fst (withGraphicType t (outputGraphics gs) c))) = bucket t (scene c) @ gs
   \<and> (\<forall>t'. t' \<noteq> t \<longrightarrow>
        bucket t' (scene (fst (withGraphicType t (outputGraphics gs) c))) = bucket t' (scene c))"
proof (intro conjI impI)
  assume "snd (func (c\<lparr> graphicType := t \<rparr>)) = None"
  then show "graphicType (fst (withGraphicType t func c)) = graphicType c"
    and "snd (withGraphicType t func c) = None"
    by (simp_all add: withGraphicType_returns)
next
  assume "snd (func (c\<lparr> graphicType := t \<rparr>)) \<noteq> None"
  then show "withGraphicType t func c = func (c\<lparr> graphicType := t \<rparr>)"
    by (rule withGraphicType_throws)
next
  have ret: "snd (outputGraphics gs (c\<lparr> graphicType := t \<rparr>)) = None"
    by (simp add: outputGraphics_def)
  have "graphicType (c\<lparr> graphicType := t \<rparr>) = t" by simp
  from outputGraphics_bucket [OF this, of gs]
  show "bucket t (scene (fst (withGraphicType t (outputGraphics gs) c))) = bucket t (scene c) @ gs"
    and "\<forall>t'. t' \<noteq> t \<longrightarrow>
        bucket t' (scene (fst (withGraphicType t (outputGraphics gs) c))) = bucket t' (scene c)"
    by (simp_all add: withGraphicType_returns [where func = "outputGraphics gs" and c = c and t = t, OF ret])
qed

theorem C2_withGraphicType_witness:
  "snd (outputGraphics [Graphic 1, Graphic 2] ((newSceneContext holdingTarget)\<lparr> graphicType := Overlay \<rparr>))
     = None
   \<and> graphicType (fst (withGraphicType Overlay (outputGraphics [Graphic 1, Graphic 2])
        (newSceneContext holdingTarget))) = TileScene
   \<and> overlay (scene (fst (withGraphicType Overlay (outputGraphics [Graphic 1, Graphic 2])
        (newSceneContext holdingTarget)))) = [Graphic 1, Graphic 2]
   \<and> foreground (scene (fst (withGraphicType Overlay (outputGraphics [Graphic 1, Graphic 2])
        (newSceneContext holdingTarget)))) = []"
proof -
  have ret: "snd (outputGraphics [Graphic 1, Graphic 2]
      ((newSceneContext holdingTarget)\<lparr> graphicType := Overlay \<rparr>)) = None"
    by (simp add: outputGraphics_def)
  have new: "graphicType (newSceneContext holdingTarget) = TileScene"
    "overlay (scene (newSceneContext holdingTarget)) = []"
    "foreground (scene (newSceneContext holdingTarget)) = []"
    by (simp_all add: newSceneContext_def)
  note inst = C2_withGraphicType [where func = "outputGraphics [Graphic 1, Graphic 2]"
      and c = "newSceneContext holdingTarget" and t = Overlay and gs = "[Graphic 1, Graphic 2]"]
  from inst ret
  have restored: "graphicType (fst (withGraphicType Overlay (outputGraphics [Graphic 1, Graphic 2])
        (newSceneContext holdingTarget))) = graphicType (newSceneContext holdingTarget)"
    by simp
  from inst
  have routed: "bucket Overlay (scene (fst (withGraphicType Overlay (outputGraphics [Graphic 1, Graphic 2])
        (newSceneContext holdingTarget))))
       = bucket Overlay (scene (newSceneContext holdingTarget)) @ [Graphic 1, Graphic 2]"
    and others: "\<forall>t'. t' \<noteq> Overlay \<longrightarrow>
        bucket t' (scene (fst (withGraphicType Overlay (outputGraphics [Graphic 1, Graphic 2])
          (newSceneContext holdingTarget))))
        = bucket t' (scene (newSceneContext holdingTarget))"
    by blast+
  from others [rule_format, of TileScene]
  have "bucket TileScene (scene (fst (withGraphicType Overlay
        (outputGraphics [Graphic 1, Graphic 2]) (newSceneContext holdingTarget))))
       = bucket TileScene (scene (newSceneContext holdingTarget))"
    by simp
  with ret new restored routed show ?thesis by simp
qed

text \<open>
  C2, as the spec states it, fails: when func throws, the graphic type set for the call
  stays. On a new context (graphic type Scene), withGraphicType(Overlay, func) for a
  func that throws leaves the graphic type Overlay.
\<close>

theorem C2_counterexample:
  "graphicType (newSceneContext holdingTarget) = TileScene
   \<and> withGraphicType Overlay throwingCallback (newSceneContext holdingTarget)
       = ((newSceneContext holdingTarget)\<lparr> graphicType := Overlay \<rparr>, Some CallbackError)
   \<and> graphicType (fst (withGraphicType Overlay throwingCallback (newSceneContext holdingTarget)))
       \<noteq> graphicType (newSceneContext holdingTarget)"
  by (simp add: withGraphicType_def throwingCallback_def newSceneContext_def Let_def)

subsection \<open>The decoration cache: recording and replay\<close>



text \<open>what restoring an entry does on an idle context, in terms of the frame's lists\<close>

lemma drawOrder_addCached [simp]: "drawOrder (addCachedDecoration k cd c) = drawOrder c"
  by (simp add: drawOrder_def)




lemma drawOrder_setters [simp]:
  "drawOrder (setSkyBox g c) = drawOrder c"
  "drawOrder (setViewBackground g c) = drawOrder c"
  by (simp_all add: drawOrder_def setSkyBox_def setViewBackground_def)




lemma recordedAll_Nil [simp]: "recordedAll [] = []"
  by (simp add: recordedAll_def List.map_filter_simps)









subsection \<open>The grid decoration\<close>


lemma getClipped_degenerate:
  assumes "clipLoops vp = None
     \<or> (\<exists>geom. clipLoops vp = Some geom \<and>
          (length geom \<noteq> 1
           \<or> (\<forall>points. geom \<noteq> [Loop [LineString3d points]])
           \<or> (\<exists>points. geom = [Loop [LineString3d points]] \<and> length (polygonClip vp points) < 4)))"
  shows "getClippedGridPlanePoints vp = None"
proof (cases "clipLoops vp")
  case None
  then show ?thesis by (simp add: getClippedGridPlanePoints_def)
next
  case (Some geom)
  with assms have deg: "length geom \<noteq> 1
           \<or> (\<forall>points. geom \<noteq> [Loop [LineString3d points]])
           \<or> (\<exists>points. geom = [Loop [LineString3d points]] \<and> length (polygonClip vp points) < 4)"
    by simp
  show ?thesis
  proof (cases "length geom = 1")
    case False
    with Some show ?thesis by (simp add: getClippedGridPlanePoints_def)
  next
    case True
    then obtain g where g: "geom = [g]"
      by (cases geom) auto
    show ?thesis
    proof (cases g)
      case OtherGeometry
      with Some g show ?thesis by (simp add: getClippedGridPlanePoints_def)
    next
      case (Loop children)
      show ?thesis
      proof (cases "length children = 1")
        case False
        with Some g Loop show ?thesis by (simp add: getClippedGridPlanePoints_def)
      next
        case True
        then obtain child where child: "children = [child]"
          by (cases children) auto
        show ?thesis
        proof (cases child)
          case OtherCurve
          with Some g Loop child show ?thesis by (simp add: getClippedGridPlanePoints_def)
        next
          case (LineString3d points)
          with deg g Loop child have "length (polygonClip vp points) < 4" by simp
          with Some g Loop child LineString3d show ?thesis
            by (simp add: getClippedGridPlanePoints_def)
        qed
      qed
    qed
  qed
qed

lemma gridBuilder_no_clip:
  "getClippedGridPlanePoints vp = None \<Longrightarrow> gridBuilder spacing gridsPerRef vp = None"
  by (simp add: gridBuilder_def)

lemma drawStandardGrid_no_builder:
  "gridBuilder spacing gridsPerRef vp = None \<Longrightarrow> drawStandardGrid spacing gridsPerRef vp c = Inr c"
  by (simp add: drawStandardGrid_def)



lemma gridLineOps_no_subgrid:
  assumes "fst spacing / meterPerPixel < 20 \<or> snd spacing / meterPerPixel < 20 \<or> gridsPerRef \<le> 1"
  shows "gridLineOps spacing gridsPerRef vp shapePoints meterPerPixel plane
     = fst (refLineOps vp (gridLayout (refSpacing spacing gridsPerRef) vp shapePoints) plane)"
  using assms by (auto simp: gridLineOps_def drawGridLines_def minSeparation_def Let_def)




text \<open>
  Where the meters per pixel are not zero, no division of drawStandardGrid has a zero
  divisor: the reference spacings are divisors only under drawRefLines, and gridsPerRef
  only under drawGridLines.
\<close>

lemma drawRefLines_divisors:
  "meterPerPixel \<noteq> 0 \<Longrightarrow> drawRefLines refSp meterPerPixel \<Longrightarrow> fst refSp \<noteq> 0 \<and> snd refSp \<noteq> 0"
  by (auto simp: drawRefLines_def minSeparation_def)


text \<open>
  C7. When the clip of the frustum against the grid plane is undefined or does not consist
  of one geometry, or that geometry is not a loop of one line string, or fewer than four
  points are left after the clip against the side planes of the frustum,
  getClippedGridPlanePoints returns undefined and drawStandardGrid returns without a
  builder: the context is unchanged and nothing is thrown.
\<close>

theorem C7_degenerate_clip:
  assumes "clipLoops vp = None
     \<or> (\<exists>geom. clipLoops vp = Some geom \<and>
          (length geom \<noteq> 1
           \<or> (\<forall>points. geom \<noteq> [Loop [LineString3d points]])
           \<or> (\<exists>points. geom = [Loop [LineString3d points]] \<and> length (polygonClip vp points) < 4)))"
  shows "getClippedGridPlanePoints vp = None
     \<and> gridBuilder spacing gridsPerRef vp = None
     \<and> drawStandardGrid spacing gridsPerRef vp c = Inr c"
proof -
  from assms have "getClippedGridPlanePoints vp = None"
    by (rule getClipped_degenerate)
  moreover from this have "gridBuilder spacing gridsPerRef vp = None"
    by (rule gridBuilder_no_clip)
  moreover from this have "drawStandardGrid spacing gridsPerRef vp c = Inr c"
    by (rule drawStandardGrid_no_builder)
  ultimately show ?thesis by simp
qed

text \<open>The witness: three points are left of the clip.\<close>

theorem C7_degenerate_clip_witness:
  "clipLoops triangleView
     = Some [Loop [LineString3d [(0, 0, 0), (80, 0, 0), (80, 80, 0), (0, 80, 0), (0, 0, 0)]]]
   \<and> length (polygonClip triangleView [(0, 0, 0), (80, 0, 0), (80, 80, 0), (0, 80, 0), (0, 0, 0)]) = 3
   \<and> drawStandardGrid (20, 20) 1 triangleView (newDecorateContext Map.empty [])
       = Inr (newDecorateContext Map.empty [])"
proof -
  let ?points = "[(0, 0, 0), (80, 0, 0), (80, 80, 0), (0, 80, 0), (0, 0, 0)] :: Point3d list"
  have loops: "clipLoops triangleView = Some [Loop [LineString3d ?points]]"
    and left: "length (polygonClip triangleView ?points) = 3"
    by (simp_all add: triangleView_def squareView_def)
  then have "clipLoops triangleView = None
     \<or> (\<exists>geom. clipLoops triangleView = Some geom \<and>
          (length geom \<noteq> 1
           \<or> (\<forall>points. geom \<noteq> [Loop [LineString3d points]])
           \<or> (\<exists>points. geom = [Loop [LineString3d points]]
                 \<and> length (polygonClip triangleView points) < 4)))"
    by simp
  from C7_degenerate_clip [OF this, of "(20, 20)" 1 "newDecorateContext Map.empty []"] loops left
  show ?thesis by simp
qed




text \<open>
  C10. With gridsPerRef = 0 the scale of the reference spacing is 1 and the reference
  spacing is the spacing. The sub-grid lines, whose steps are the only divisions by
  gridsPerRef, are generated under drawGridLines only, which requires gridsPerRef > 1:
  with gridsPerRef = 0 the block for the reference lines consists of the two loops over
  the reference lines, and drawStandardGrid does what it does for gridsPerRef = 1.
\<close>

theorem C10_zero_divisions:
  "refScale 0 = 1
   \<and> refSpacing spacing 0 = spacing
   \<and> (drawGridLines dX dY gridsPerRef spacing meterPerPixel \<longrightarrow> 1 < gridsPerRef)
   \<and> \<not> drawGridLines dX dY 0 spacing meterPerPixel
   \<and> gridLineOps spacing 0 vp shapePoints meterPerPixel plane
       = fst (refLineOps vp (gridLayout spacing vp shapePoints) plane)
   \<and> gridBuilder spacing 0 vp = gridBuilder spacing 1 vp
   \<and> drawStandardGrid spacing 0 vp c = drawStandardGrid spacing 1 vp c"
proof -
  have scale: "refSpacing spacing 0 = spacing" "refSpacing spacing 1 = spacing"
    by (simp_all add: refScale_def refSpacing_def)
  have ops: "gridLineOps spacing 0 vp points m p = gridLineOps spacing 1 vp points m p" for points m p
    using gridLineOps_no_subgrid [of spacing m 0 vp points p]
      gridLineOps_no_subgrid [of spacing m 1 vp points p]
    by (simp add: scale)
  have builder: "gridBuilder spacing 0 vp = gridBuilder spacing 1 vp"
    by (simp add: gridBuilder_def scale ops Let_def split: option.splits)
  from gridLineOps_no_subgrid [of spacing meterPerPixel 0 vp shapePoints plane] builder scale
  show ?thesis
    by (simp add: refScale_def drawGridLines_def drawStandardGrid_def)
qed

text \<open>
  The witness, in the square view: with gridsPerRef = 0 and a spacing of 20, the lines
  drawn are the reference lines at the spacing.
\<close>

theorem C10_zero_divisions_witness:
  "refSpacing (20, 20) 0 = (20, 20)
   \<and> \<not> drawGridLines True True 0 (20, 20) 1
   \<and> gridBuilder (20, 20) 0 squareView = gridBuilder (20, 20) 1 squareView
   \<and> gridLineStrings (20, 20) 0 squareView =
       [[(0, 0, 0), (80, 0, 0)], [(0, 20, 0), (80, 20, 0)], [(0, 40, 0), (80, 40, 0)],
        [(0, 60, 0), (80, 60, 0)], [(0, 80, 0), (80, 80, 0)],
        [(0, 0, 0), (0, 80, 0)], [(20, 0, 0), (20, 80, 0)], [(40, 0, 0), (40, 80, 0)],
        [(60, 0, 0), (60, 80, 0)], [(80, 0, 0), (80, 80, 0)]]"
proof -
  have lines: "gridLineStrings (20, 20) 1 squareView =
       [[(0, 0, 0), (80, 0, 0)], [(0, 20, 0), (80, 20, 0)], [(0, 40, 0), (80, 40, 0)],
        [(0, 60, 0), (80, 60, 0)], [(0, 80, 0), (80, 80, 0)],
        [(0, 0, 0), (0, 80, 0)], [(20, 0, 0), (20, 80, 0)], [(40, 0, 0), (40, 80, 0)],
        [(60, 0, 0), (60, 80, 0)], [(80, 0, 0), (80, 80, 0)]]"
    by code_simp
  from C10_zero_divisions [of "(20, 20)" True True 0 1 squareView "[]" "(Red, None)"
      "newDecorateContext Map.empty []"]
  have "refSpacing (20, 20) 0 = (20, 20)" "\<not> drawGridLines True True 0 (20, 20) 1"
    "gridBuilder (20, 20) 0 squareView = gridBuilder (20, 20) 1 squareView"
    by simp_all
  with lines show ?thesis by (simp add: gridLineStrings_def)
qed

end
